theory Spec2Isabelle
  imports Complex_Main
begin

section \<open>Data model of \<open>script.js\<close>\<close>

text \<open>
  The calculator keeps one global object \<open>appData\<close> with the fields \<open>materials\<close>,
  \<open>recipes\<close> and \<open>settings\<close>. It starts as the empty object, so each of the three
  may be \<open>undefined\<close>; the code guards the first two (\<open>appData.materials && ...\<close>)
  and reads the third both guarded and unguarded. Absent fields are \<open>None\<close>.

  A JavaScript number is the rational it denotes; \<open>NaN\<close> and the infinities do not
  occur. The resolvers compute their sums, products and the factor
  \<open>1 - level * 0.05\<close> exactly, where the code rounds each result to a double. The two
  agree where every intermediate value is a double, as with integer prices and counts
  at the levels 0, 10 and 20; at other levels the double factor is inexact, and a count
  that falls on a half may round the other way (level 7, count 10: 6 in the code, 7
  here). The optimizer, whose
  results turn on comparing quotients and on printing them, takes the machine's
  multiplication, division and \<open>toFixed\<close> as parameters (see \<open>machine\<close> below).
  Field values that are present have the type the code
  expects (a number for a price, an object for a recipe). An object literal is an
  association list in the order \<open>Object.entries\<close> enumerates it, looked up with
  \<open>map_of\<close>; properties inherited from \<open>Object.prototype\<close> are not modelled.
  Strings are byte strings in UTF-8.
\<close>

type_synonym number = rat

record recipe =
  stamina :: "number option"
  category :: "string option"
  ingredients :: "(string \<times> number) list option"

record settings =
  stamina_cost :: "number option"
  efficiency_limit :: "number option"
  conservation_level :: "number option"
  ignoreIntermediateStamina :: bool

record appData =
  materials :: "(string \<times> number) list option"
  recipes :: "(string \<times> recipe) list option"
  settings :: "settings option"

text \<open>
  Failures. The first four are the objects \<open>{ error: ... }\<close> the code returns; the
  last is the exception JavaScript throws when a property of \<open>undefined\<close> is read
  (\<open>appData.settings.stamina_cost\<close> with no settings), which leaves every caller.
\<close>

datatype failure =
    material_price_missing string
  | item_not_found string
  | circular_dependency string
  | generic_cost_error
  | TypeError

text \<open>The two categories exempt from conservation, as UTF-8 bytes of the source literals.\<close>

definition cat_processed :: string where
  "cat_processed = [CHR 0xEA, CHR 0xB0, CHR 0x80, CHR 0xEA, CHR 0xB3, CHR 0xB5,
                    CHR 0xED, CHR 0x92, CHR 0x88]"

definition cat_weaving :: string where
  "cat_weaving = [CHR 0xEB, CHR 0xB0, CHR 0xA9, CHR 0xEC, CHR 0xA7, CHR 0x81]"

definition lookupMaterial :: "appData \<Rightarrow> string \<Rightarrow> number option" where
  "lookupMaterial ds itemName =
     (case materials ds of None \<Rightarrow> None | Some ms \<Rightarrow> map_of ms itemName)"

definition findRecipe :: "appData \<Rightarrow> string \<Rightarrow> recipe option" where
  "findRecipe ds itemName =
     (case recipes ds of None \<Rightarrow> None | Some rs \<Rightarrow> map_of rs itemName)"

definition recipe_names :: "appData \<Rightarrow> string set" where
  "recipe_names ds = (case recipes ds of None \<Rightarrow> {} | Some rs \<Rightarrow> fst ` set rs)"

text \<open>\<open>Math.round\<close>: the nearest integer, a tie going up.\<close>

definition Math_round :: "number \<Rightarrow> int" where
  "Math_round x = \<lfloor>x + 1 / 2\<rfloor>"

definition exempt :: "recipe \<Rightarrow> bool" where
  "exempt r \<longleftrightarrow> category r = Some cat_processed \<or> category r = Some cat_weaving"

definition reductionFactor :: "recipe \<Rightarrow> number \<Rightarrow> number" where
  "reductionFactor r conservationLevel =
     (if \<not> exempt r then 1 - conservationLevel * (5 / 100) else 1)"

definition reducedCount :: "number \<Rightarrow> number \<Rightarrow> number" where
  "reducedCount c factor = of_int (Math_round (c * factor))"

section \<open>The resolvers\<close>

text \<open>
  Every caller passes a fresh \<open>Set\<close> (\<open>new Set()\<close> or \<open>new Set(visited)\<close>), so
  \<open>visited.add\<close> never reaches a set another call reads: the set is passed by
  value. The \<open>for\<close> loop over \<open>Object.entries(recipe.ingredients)\<close> is the second
  function of each pair; it carries the running \<open>cost\<close>.
\<close>

lemma recipe_names_card:
  assumes "findRecipe ds n = Some r" and "n \<notin> visited"
  shows "card (recipe_names ds - insert n visited) < card (recipe_names ds - visited)"
proof -
  from assms(1) obtain rs where rs: "recipes ds = Some rs" "map_of rs n = Some r"
    by (auto simp: findRecipe_def split: option.splits)
  then have "n \<in> recipe_names ds"
    by (auto simp: recipe_names_def dest: map_of_SomeD intro: rev_image_eqI)
  moreover have "finite (recipe_names ds)"
    by (simp add: recipe_names_def split: option.splits)
  ultimately show ?thesis
    using assms(2) by (intro psubset_card_mono) auto
qed

function getStamina :: "appData \<Rightarrow> string \<Rightarrow> string set \<Rightarrow> number \<Rightarrow> failure + number"
  and getStamina_loop ::
    "appData \<Rightarrow> string set \<Rightarrow> number \<Rightarrow> number \<Rightarrow> (string \<times> number) list \<Rightarrow> number
       \<Rightarrow> failure + number"
where
  "getStamina ds itemName visited conservationLevel =
     (if itemName \<in> visited then Inr 0
      else case findRecipe ds itemName of
        None \<Rightarrow> Inr 0
      | Some r \<Rightarrow>
          (case (case ingredients r of
                   None \<Rightarrow> Inr (case stamina r of None \<Rightarrow> 0 | Some s \<Rightarrow> s)
                 | Some ings \<Rightarrow>
                     getStamina_loop ds (insert itemName visited) conservationLevel
                       (reductionFactor r conservationLevel) ings
                       (case stamina r of None \<Rightarrow> 0 | Some s \<Rightarrow> s)) of
             Inl e \<Rightarrow> Inl e
           | Inr totalStamina \<Rightarrow>
               (case settings ds of
                  None \<Rightarrow> Inl TypeError
                | Some st \<Rightarrow>
                    if ignoreIntermediateStamina st \<and> exempt r
                    then Inr (totalStamina - (case stamina r of None \<Rightarrow> 0 | Some s \<Rightarrow> s))
                    else Inr totalStamina)))"
| "getStamina_loop ds visited conservationLevel factor [] totalStamina = Inr totalStamina"
| "getStamina_loop ds visited conservationLevel factor ((ingName, c) # rest) totalStamina =
     (case getStamina ds ingName visited conservationLevel of
        Inl e \<Rightarrow> Inl e
      | Inr s \<Rightarrow>
          getStamina_loop ds visited conservationLevel factor rest
            (totalStamina + s * reducedCount c factor))"
  by pat_completeness auto
termination
  by (relation "inv_image (less_than <*lex*> less_than)
        (\<lambda>x. case x of
           Inl (ds, n, vis, lvl) \<Rightarrow> (card (recipe_names ds - vis), 0)
         | Inr (ds, vis, lvl, f, ings, t) \<Rightarrow> (card (recipe_names ds - vis), Suc (length ings)))")
     (auto simp: recipe_names_card)

declare getStamina.simps [simp del]


function getMaterialCost :: "appData \<Rightarrow> string \<Rightarrow> string set \<Rightarrow> number \<Rightarrow> failure + number"
  and getMaterialCost_loop ::
    "appData \<Rightarrow> string set \<Rightarrow> number \<Rightarrow> number \<Rightarrow> (string \<times> number) list \<Rightarrow> number
       \<Rightarrow> failure + number"
where
  "getMaterialCost ds itemName visited conservationLevel =
     (case lookupMaterial ds itemName of
        Some price \<Rightarrow>
          if price \<le> 0 then Inl (material_price_missing itemName) else Inr price
      | None \<Rightarrow>
          (case findRecipe ds itemName of
             None \<Rightarrow> Inl (item_not_found itemName)
           | Some r \<Rightarrow>
               if itemName \<in> visited then Inl (circular_dependency itemName)
               else (case ingredients r of
                       None \<Rightarrow> Inr 0
                     | Some ings \<Rightarrow>
                         getMaterialCost_loop ds (insert itemName visited) conservationLevel
                           (reductionFactor r conservationLevel) ings 0)))"
| "getMaterialCost_loop ds visited conservationLevel factor [] cost = Inr cost"
| "getMaterialCost_loop ds visited conservationLevel factor ((ingName, c) # rest) cost =
     (case getMaterialCost ds ingName visited conservationLevel of
        Inl e \<Rightarrow> Inl e
      | Inr ingCost \<Rightarrow>
          getMaterialCost_loop ds visited conservationLevel factor rest
            (cost + ingCost * reducedCount c factor))"
  by pat_completeness auto
termination
  by (relation "inv_image (less_than <*lex*> less_than)
        (\<lambda>x. case x of
           Inl (ds, n, vis, lvl) \<Rightarrow> (card (recipe_names ds - vis), 0)
         | Inr (ds, vis, lvl, f, ings, t) \<Rightarrow> (card (recipe_names ds - vis), Suc (length ings)))")
     (auto simp: recipe_names_card)

declare getMaterialCost.simps [simp del]

function getTotalCostIncludingStamina ::
    "appData \<Rightarrow> string \<Rightarrow> string set \<Rightarrow> number \<Rightarrow> failure + number"
  and getTotalCostIncludingStamina_loop ::
    "appData \<Rightarrow> string set \<Rightarrow> number \<Rightarrow> number \<Rightarrow> (string \<times> number) list \<Rightarrow> number
       \<Rightarrow> failure + number"
where
  "getTotalCostIncludingStamina ds itemName visited conservationLevel =
     (case lookupMaterial ds itemName of
        Some price \<Rightarrow>
          if price \<le> 0 then Inl (material_price_missing itemName) else Inr price
      | None \<Rightarrow>
          (case findRecipe ds itemName of
             None \<Rightarrow> Inl (item_not_found itemName)
           | Some r \<Rightarrow>
               if itemName \<in> visited then Inl (circular_dependency itemName)
               else
                 (case (case ingredients r of
                          None \<Rightarrow> Inr 0
                        | Some ings \<Rightarrow>
                            getTotalCostIncludingStamina_loop ds (insert itemName visited)
                              conservationLevel (reductionFactor r conservationLevel) ings 0) of
                    Inl e \<Rightarrow> Inl e
                  | Inr cost \<Rightarrow>
                      (case getStamina ds itemName {} conservationLevel of
                         Inl e \<Rightarrow> Inl e
                       | Inr effectiveStaminaForThisItem \<Rightarrow>
                           (case settings ds of
                              None \<Rightarrow> Inl TypeError
                            | Some st \<Rightarrow>
                                Inr (cost + effectiveStaminaForThisItem *
                                       (case stamina_cost st of None \<Rightarrow> 0 | Some sc \<Rightarrow> sc)))))))"
| "getTotalCostIncludingStamina_loop ds visited conservationLevel factor [] cost = Inr cost"
| "getTotalCostIncludingStamina_loop ds visited conservationLevel factor ((ingName, c) # rest) cost =
     (case getTotalCostIncludingStamina ds ingName visited conservationLevel of
        Inl e \<Rightarrow> Inl e
      | Inr ingCost \<Rightarrow>
          getTotalCostIncludingStamina_loop ds visited conservationLevel factor rest
            (cost + ingCost * reducedCount c factor))"
  by pat_completeness auto
termination
  by (relation "inv_image (less_than <*lex*> less_than)
        (\<lambda>x. case x of
           Inl (ds, n, vis, lvl) \<Rightarrow> (card (recipe_names ds - vis), 0)
         | Inr (ds, vis, lvl, f, ings, t) \<Rightarrow> (card (recipe_names ds - vis), Suc (length ings)))")
     (auto simp: recipe_names_card)

declare getTotalCostIncludingStamina.simps [simp del]

section \<open>Stamina value, requirement schedule\<close>

text \<open>
  \<open>Number.prototype.toFixed\<close> as ECMAScript defines it for a finite value below
  \<open>10^21\<close>, the argument being the value the double holds: the sign is split off, \<open>n\<close> is the integer nearest to \<open>x * 10^f\<close> (the
  larger one on a tie), its decimal digits are padded with zeros to \<open>f + 1\<close>
  places, and the point goes before the last \<open>f\<close> digits. Larger values, which
  JavaScript prints in exponent form, are rendered the same way here.
\<close>

definition digit_char :: "nat \<Rightarrow> char" where
  "digit_char d = ''0123456789'' ! d"

fun show_nat :: "nat \<Rightarrow> string" where
  "show_nat n = (if n < 10 then [digit_char n] else show_nat (n div 10) @ [digit_char (n mod 10)])"

declare show_nat.simps [simp del]

definition toFixed :: "number \<Rightarrow> nat \<Rightarrow> string" where
  "toFixed x f =
     (let m = show_nat (nat \<lfloor>\<bar>x\<bar> * 10 ^ f + 1 / 2\<rfloor>);
          m' = (if f \<noteq> 0
                then (let z = (if length m \<le> f then replicate (f + 1 - length m) (CHR ''0'') @ m else m)
                      in take (length z - f) z @ ''.'' @ drop (length z - f) z)
                else m)
      in if x < 0 then ''-'' @ m' else m')"

datatype js_value = Num number | Str string

definition calculateStaminaCost :: "number \<Rightarrow> js_value" where
  "calculateStaminaCost wlbLevel =
     (if wlbLevel \<le> 1 then Num 99999
      else if 13 * (wlbLevel - 1) \<le> 0 then Num 99999
      else Str (toFixed (1000 / (13 * (wlbLevel - 1))) 2))"

text \<open>
  \<open>getReqCount\<close> is only ever called with an integer loop counter, so its argument is an
  \<open>int\<close>.
\<close>

definition getReqCount :: "int \<Rightarrow> int" where
  "getReqCount deliveryNumber =
     (if deliveryNumber \<le> 1 then 1
      else if deliveryNumber = 2 then 2
      else if deliveryNumber \<ge> 3 \<and> deliveryNumber \<le> 10 then 3
      else if deliveryNumber \<ge> 11 \<and> deliveryNumber \<le> 20 then 5
      else 10)"

section \<open>The efficiency optimizer\<close>

text \<open>
  The object \<open>calcEfficiency\<close> returns. \<open>round\<close> is absent from the not-recommended
  report; \<open>totalProfit\<close> is \<open>None\<close> where JavaScript computes \<open>NaN\<close> (a reward times
  \<open>undefined\<close>). The fields formatted with \<open>toFixed\<close> are strings.
\<close>

record efficiency =
  mode :: string
  recommend :: bool
  msg :: "string option"
  round_n :: "int option"
  totalItems :: int
  totalProfit :: "number option"
  averageEfficiency :: string
  unitCost :: string
  consumedCoin :: string
  totalCost :: string
  totalStamina :: string

datatype evaluation = Evaluation efficiency | CalcFault string

definition msg_not_recommended :: string where
  "msg_not_recommended =
     [CHR 0xEB, CHR 0x82, CHR 0xA9, CHR 0xED, CHR 0x92, CHR 0x88, CHR 0x20, CHR 0xEB, CHR 0xB9,
      CHR 0x84, CHR 0xEC, CHR 0xB6, CHR 0x94, CHR 0xEC, CHR 0xB2, CHR 0x9C, CHR 0x20, CHR 0x28,
      CHR 0xED, CHR 0x9A, CHR 0xA8, CHR 0xEC, CHR 0x9C, CHR 0xA8, CHR 0x20, CHR 0xEB, CHR 0x82,
      CHR 0xAE, CHR 0xEC, CHR 0x9D, CHR 0x8C, CHR 0x29]"

definition msg_calc_fault :: string where
  "msg_calc_fault =
     [CHR 0xEA, CHR 0xB3, CHR 0x84, CHR 0xEC, CHR 0x82, CHR 0xB0, CHR 0x20, CHR 0xEC, CHR 0x98,
      CHR 0xA4, CHR 0xEB, CHR 0xA5, CHR 0x98]"

text \<open>
  The arithmetic of the machine. \<open>jsMul\<close> and \<open>jsDiv\<close> are the product and the
  quotient of two doubles as JavaScript computes them (the exact result rounded to a
  double), \<open>jsToFixed\<close> is \<open>Number.prototype.toFixed\<close>. None of them is defined in
  the repository, so the optimizer takes them as a parameter and what is proved of it
  holds whatever they return. Comparisons of doubles, and sums of small integers, are
  exact and are not parameters. \<open>exact\<close> is the machine that rounds nothing, on which
  examples are run; their comparisons are far from the threshold and the strings
  printed are those the doubles give.
\<close>

record machine =
  jsMul :: "number \<Rightarrow> number \<Rightarrow> number"
  jsDiv :: "number \<Rightarrow> number \<Rightarrow> number"
  jsToFixed :: "number \<Rightarrow> nat \<Rightarrow> string"

definition exact :: machine where
  "exact = \<lparr> jsMul = (\<lambda>a b. a * b), jsDiv = (\<lambda>a b. a / b), jsToFixed = toFixed \<rparr>"

text \<open>The ternary \<open>totalCost > 0 ? totalProfit / totalCost : 0\<close>, written three times.\<close>

definition ratio :: "machine \<Rightarrow> number \<Rightarrow> number \<Rightarrow> number" where
  "ratio fp totalProfitV totalCostV =
     (if totalCostV > 0 then jsDiv fp totalProfitV totalCostV else 0)"

text \<open>\<open>averageEfficiency >= appData.settings.efficiency_limit\<close>; against \<open>undefined\<close> it is false.\<close>

definition reaches :: "number \<Rightarrow> number option \<Rightarrow> bool" where
  "reaches e limit = (case limit of None \<Rightarrow> False | Some l \<Rightarrow> e \<ge> l)"

text \<open>
  The \<open>while (keepChecking && maxDeliveries < 50)\<close> loop; leaving it with
  \<open>keepChecking = false\<close> is the \<open>else\<close> branch returning \<open>maxDeliveries\<close>.
\<close>

function search ::
    "machine \<Rightarrow> number \<Rightarrow> number \<Rightarrow> number option \<Rightarrow> int \<Rightarrow> int \<Rightarrow> int" where
  "search fp unitCostV reward limit maxDeliveries totalItemsForAvg =
     (if maxDeliveries < 50 then
        (if reaches
              (ratio fp (jsMul fp reward (of_int (maxDeliveries + 1)))
                 (jsMul fp unitCostV
                    (of_int (totalItemsForAvg + getReqCount (maxDeliveries + 1)))))
              limit
         then search fp unitCostV reward limit (maxDeliveries + 1)
                (totalItemsForAvg + getReqCount (maxDeliveries + 1))
         else maxDeliveries)
      else maxDeliveries)"
  by pat_completeness auto
termination
  by (relation "measure (\<lambda>(fp, u, r, l, m, t). nat (50 - m))") auto

declare search.simps [simp del]

text \<open>\<open>for (let i = 1; i <= n; i++) currentTotal += getReqCount(i)\<close>, from \<open>i\<close> on.\<close>

function sumReq :: "int \<Rightarrow> int \<Rightarrow> int \<Rightarrow> int" where
  "sumReq i n currentTotal =
     (if i \<le> n then sumReq (i + 1) n (currentTotal + getReqCount i) else currentTotal)"
  by pat_completeness auto
termination
  by (relation "measure (\<lambda>(i, n, t). nat (n + 1 - i))") auto

declare sumReq.simps [simp del]

definition milestones :: "int list" where
  "milestones = [25, 20, 10, 2, 1]"

definition deliveryMap :: "string \<Rightarrow> int option" where
  "deliveryMap = map_of [(''1'', 1), (''2'', 2), (''3'', 10), (''5'', 20), (''10'', 25)]"

definition configuredLevel :: "appData \<Rightarrow> number" where
  "configuredLevel ds =
     (case settings ds of
        None \<Rightarrow> 10
      | Some st \<Rightarrow> (case conservation_level st of None \<Rightarrow> 10 | Some c \<Rightarrow> c))"

text \<open>
  The report both modes build once the delivery count \<open>n\<close> and the number of items are
  known; \<open>n = None\<close> is a count that is \<open>undefined\<close> (no milestone found, or a mode
  label outside the map), for which the loop over \<open>1..n\<close> does not run: the items are
  0, the total cost is a product with 0 and so not above 0, and the efficiency is 0.
\<close>

definition report ::
    "machine \<Rightarrow> string \<Rightarrow> int option \<Rightarrow> int \<Rightarrow> number \<Rightarrow> number \<Rightarrow> number \<Rightarrow> number
       \<Rightarrow> efficiency" where
  "report fp modeV n items reward unitCostV consumedCoinV unitStaminaV =
     \<lparr> mode = modeV, recommend = True, msg = None, round_n = n, totalItems = items,
       totalProfit = map_option (\<lambda>k. jsMul fp reward (of_int k)) n,
       averageEfficiency =
         jsToFixed fp
           (case n of
              None \<Rightarrow> 0
            | Some k \<Rightarrow>
                ratio fp (jsMul fp reward (of_int k)) (jsMul fp unitCostV (of_int items))) 3,
       unitCost = jsToFixed fp unitCostV 1,
       consumedCoin = jsToFixed fp (jsMul fp consumedCoinV (of_int items)) 1,
       totalCost = jsToFixed fp (jsMul fp unitCostV (of_int items)) 0,
       totalStamina = jsToFixed fp (jsMul fp unitStaminaV (of_int items)) 0 \<rparr>"

text \<open>
  \<open>calcEfficiency\<close> from the test \<open>unitCost === 0\<close> on, given what the three
  resolvers returned.
\<close>

definition evaluate ::
    "machine \<Rightarrow> appData \<Rightarrow> number \<Rightarrow> string \<Rightarrow> number \<Rightarrow> number \<Rightarrow> number
       \<Rightarrow> failure + evaluation" where
  "evaluate fp ds reward deliveryMode consumedCoinV unitCostV unitStaminaV =
     (if unitCostV = 0 then Inl generic_cost_error
      else if deliveryMode = ''default'' then
        (case settings ds of
           None \<Rightarrow> Inl TypeError
         | Some st \<Rightarrow>
             if search fp unitCostV reward (efficiency_limit st) 0 0 = 0 then
               Inr (Evaluation
                 \<lparr> mode = deliveryMode, recommend = False, msg = Some msg_not_recommended,
                   round_n = None, totalItems = getReqCount 1,
                   totalProfit = Some (jsMul fp reward (of_int (getReqCount 1))),
                   averageEfficiency =
                     jsToFixed fp
                       (jsDiv fp reward (jsMul fp unitCostV (of_int (getReqCount 1)))) 3,
                   unitCost = jsToFixed fp unitCostV 1,
                   consumedCoin = jsToFixed fp (jsMul fp consumedCoinV (of_int (getReqCount 1))) 1,
                   totalCost = jsToFixed fp (jsMul fp unitCostV (of_int (getReqCount 1))) 0,
                   totalStamina =
                     jsToFixed fp (jsMul fp unitStaminaV (of_int (getReqCount 1))) 0 \<rparr>)
             else
               (case find (\<lambda>m. m \<le> search fp unitCostV reward (efficiency_limit st) 0 0)
                       milestones of
                  None \<Rightarrow>
                    Inr (Evaluation
                      (report fp ''default'' None 0 reward unitCostV consumedCoinV unitStaminaV))
                | Some bestMilestone \<Rightarrow>
                    Inr (Evaluation
                      (report fp ''default'' (Some bestMilestone) (sumReq 1 bestMilestone 0)
                         reward unitCostV consumedCoinV unitStaminaV))))
      else
        (case deliveryMap deliveryMode of
           None \<Rightarrow>
             Inr (Evaluation
               (report fp deliveryMode None 0 reward unitCostV consumedCoinV unitStaminaV))
         | Some maxDeliveries \<Rightarrow>
             if maxDeliveries = 0 then Inr (CalcFault msg_calc_fault)
             else
               Inr (Evaluation
                 (report fp deliveryMode (Some maxDeliveries) (sumReq 1 maxDeliveries 0)
                    reward unitCostV consumedCoinV unitStaminaV))))"

definition calcEfficiency ::
    "machine \<Rightarrow> appData \<Rightarrow> string \<Rightarrow> number \<Rightarrow> string \<Rightarrow> failure + evaluation" where
  "calcEfficiency fp ds itemName reward deliveryMode =
     (case getMaterialCost ds itemName {} (configuredLevel ds) of
        Inl e \<Rightarrow> Inl e
      | Inr consumedCoinV \<Rightarrow>
          (case getTotalCostIncludingStamina ds itemName {} (configuredLevel ds) of
             Inl e \<Rightarrow> Inl e
           | Inr unitCostV \<Rightarrow>
               (case getStamina ds itemName {} (configuredLevel ds) of
                  Inl e \<Rightarrow> Inl e
                | Inr unitStaminaV \<Rightarrow>
                    evaluate fp ds reward deliveryMode consumedCoinV unitCostV unitStaminaV)))"

text \<open>The sum of \<open>getReqCount\<close> over the deliveries \<open>1..k\<close>.\<close>

definition cumulativeUnits :: "int \<Rightarrow> int" where
  "cumulativeUnits k = (\<Sum>i = 1..k. getReqCount i)"

section \<open>Notions used to state the properties\<close>

text \<open>
  What a string printed by \<open>toFixed\<close> denotes: an optional minus sign, the digits before
  the point, and the digits after it as a fraction.
\<close>

definition digit_value :: "char \<Rightarrow> nat" where
  "digit_value c = of_char c - 48"

definition digits_value :: "string \<Rightarrow> nat" where
  "digits_value s = foldl (\<lambda>a c. 10 * a + digit_value c) 0 s"

definition decimalValue :: "string \<Rightarrow> rat" where
  "decimalValue s =
     (let negative = (s \<noteq> [] \<and> hd s = CHR ''-'');
          body = (if negative then tl s else s);
          whole = takeWhile (\<lambda>c. c \<noteq> CHR ''.'') body;
          frac = drop 1 (dropWhile (\<lambda>c. c \<noteq> CHR ''.'') body);
          v = of_nat (digits_value whole) + of_nat (digits_value frac) / 10 ^ length frac
      in if negative then - v else v)"

text \<open>A string with neither a point nor a minus sign, as the digits of a number are.\<close>

definition plain :: "string \<Rightarrow> bool" where
  "plain s \<longleftrightarrow> (\<forall>c \<in> set s. c \<noteq> CHR ''.'' \<and> c \<noteq> CHR ''-'')"




section \<open>Example datasets\<close>

text \<open>
  Small datasets on which the resolvers are run: a chain of two recipes over one priced
  material (and one unpriced), a recipe that lists itself, a fractional count, settings
  without a conservation level, two recipes that list each other, the same with an
  unknown ingredient listed first, a diamond, a name that is both a material and a
  recipe, and a recipe whose stamina is valued below 0.
\<close>

definition ds_chain :: appData where
  "ds_chain =
     \<lparr> materials = Some [(''M'', 10), (''N'', 0)],
       recipes = Some
         [(''A'', \<lparr>stamina = Some 1, category = None, ingredients = Some [(''B'', 1)]\<rparr>),
          (''B'', \<lparr>stamina = Some 1, category = None, ingredients = Some [(''M'', 1)]\<rparr>)],
       settings = Some \<lparr>stamina_cost = Some 1, efficiency_limit = Some (36 / 100),
                         conservation_level = Some 0, ignoreIntermediateStamina = False\<rparr> \<rparr>"

definition ds_self :: appData where
  "ds_self =
     \<lparr> materials = Some [],
       recipes = Some
         [(''A'', \<lparr>stamina = Some 5, category = None, ingredients = Some [(''A'', 1)]\<rparr>)],
       settings = Some \<lparr>stamina_cost = Some 1, efficiency_limit = Some (36 / 100),
                         conservation_level = Some 0, ignoreIntermediateStamina = False\<rparr> \<rparr>"

definition ds_fraction :: appData where
  "ds_fraction =
     \<lparr> materials = Some [(''M'', 10)],
       recipes = Some
         [(''A'', \<lparr>stamina = Some 0, category = None, ingredients = Some [(''M'', 5 / 2)]\<rparr>)],
       settings = Some \<lparr>stamina_cost = Some 1, efficiency_limit = Some (36 / 100),
                         conservation_level = Some 0, ignoreIntermediateStamina = False\<rparr> \<rparr>"

definition ds_unset :: appData where
  "ds_unset =
     \<lparr> materials = Some [(''M'', 10)],
       recipes = Some
         [(''A'', \<lparr>stamina = Some 0, category = None, ingredients = Some [(''M'', 4)]\<rparr>)],
       settings = Some \<lparr>stamina_cost = Some 1, efficiency_limit = Some (36 / 100),
                         conservation_level = None, ignoreIntermediateStamina = False\<rparr> \<rparr>"




definition ds_both :: appData where
  "ds_both =
     \<lparr> materials = Some [(''X'', 10)],
       recipes = Some
         [(''X'', \<lparr>stamina = Some 4, category = None, ingredients = Some []\<rparr>)],
       settings = Some \<lparr>stamina_cost = Some 1, efficiency_limit = Some (36 / 100),
                         conservation_level = Some 0, ignoreIntermediateStamina = False\<rparr> \<rparr>"

definition ds_negative :: appData where
  "ds_negative =
     \<lparr> materials = Some [],
       recipes = Some
         [(''A'', \<lparr>stamina = Some 4, category = None, ingredients = Some []\<rparr>)],
       settings = Some \<lparr>stamina_cost = Some (- 5), efficiency_limit = Some (- 1),
                         conservation_level = Some 0, ignoreIntermediateStamina = False\<rparr> \<rparr>"

section \<open>The requirement schedule\<close>

text \<open>
  C8. For every delivery index from 1 on, \<open>getReqCount\<close> follows the step table
  (1 gives 1, 2 gives 2, 3 to 10 give 3, 11 to 20 give 5, 21 and above give 10), and it
  is non-decreasing over those indices.
\<close>

theorem getReqCount_schedule:
  fixes i j :: int
  assumes "1 \<le> i"
  shows "(i = 1 \<longrightarrow> getReqCount i = 1) \<and>
         (i = 2 \<longrightarrow> getReqCount i = 2) \<and>
         (3 \<le> i \<and> i \<le> 10 \<longrightarrow> getReqCount i = 3) \<and>
         (11 \<le> i \<and> i \<le> 20 \<longrightarrow> getReqCount i = 5) \<and>
         (21 \<le> i \<longrightarrow> getReqCount i = 10) \<and>
         (i \<le> j \<longrightarrow> getReqCount i \<le> getReqCount j)"
  using assms by (simp add: getReqCount_def)

theorem getReqCount_schedule_witness:
  "getReqCount 1 = 1 \<and> getReqCount 2 = 2 \<and> getReqCount 3 = 3 \<and> getReqCount 10 = 3 \<and>
   getReqCount 11 = 5 \<and> getReqCount 20 = 5 \<and> getReqCount 21 = 10 \<and>
   getReqCount 10 \<le> getReqCount 11"
  using getReqCount_schedule [of 1 1] getReqCount_schedule [of 2 2] getReqCount_schedule [of 3 3]
    getReqCount_schedule [of 10 11] getReqCount_schedule [of 11 11]
    getReqCount_schedule [of 20 20] getReqCount_schedule [of 21 21]
  by simp

section \<open>Facts about the loops of the optimizer\<close>

lemma cumulativeUnits_step:
  "0 \<le> k \<Longrightarrow> cumulativeUnits (k + 1) = cumulativeUnits k + getReqCount (k + 1)"
proof -
  assume "0 \<le> k"
  then have "{1..k + 1} = insert (k + 1) {1..k}"
    by auto
  then show ?thesis
    by (simp add: cumulativeUnits_def)
qed

lemma sumReq_sum:
  "1 \<le> i \<Longrightarrow> i \<le> n + 1 \<Longrightarrow> sumReq i n (cumulativeUnits (i - 1)) = cumulativeUnits n"
proof (induction i n "cumulativeUnits (i - 1)" rule: sumReq.induct)
  case (1 i n)
  show ?case
  proof (cases "i \<le> n")
    case True
    have "cumulativeUnits (i - 1) + getReqCount i = cumulativeUnits (i + 1 - 1)"
      using cumulativeUnits_step [of "i - 1"] "1.prems" by simp
    with True "1.hyps" "1.prems" show ?thesis
      by (subst sumReq.simps) simp
  next
    case False
    with "1.prems" have "i = n + 1" by simp
    then show ?thesis
      by (subst sumReq.simps) simp
  qed
qed

lemma sumReq_cumulative: "0 \<le> n \<Longrightarrow> sumReq 1 n 0 = cumulativeUnits n"
  using sumReq_sum [of 1 n] by (simp add: cumulativeUnits_def)

lemma find_milestone:
  assumes "1 \<le> d"
  shows "\<exists>m. find (\<lambda>m. m \<le> d) milestones = Some m \<and> m \<in> set milestones \<and> m \<le> d \<and>
             (\<forall>m' \<in> set milestones. m' \<le> d \<longrightarrow> m' \<le> m)"
  using assms by (auto simp: milestones_def)

lemma search_spec:
  assumes "0 \<le> m" and "t = cumulativeUnits m"
  shows "m \<le> search fp u r l m t \<and>
         (m \<le> 50 \<longrightarrow> search fp u r l m t \<le> 50) \<and>
         (\<forall>i. m < i \<and> i \<le> search fp u r l m t \<longrightarrow>
              reaches (ratio fp (jsMul fp r (of_int i))
                         (jsMul fp u (of_int (cumulativeUnits i)))) l) \<and>
         (search fp u r l m t < 50 \<longrightarrow>
            \<not> reaches (ratio fp (jsMul fp r (of_int (search fp u r l m t + 1)))
                         (jsMul fp u (of_int (cumulativeUnits (search fp u r l m t + 1))))) l)"
  using assms
proof (induction fp u r l m t rule: search.induct)
  case (1 fp u r l m t)
  let ?t' = "t + getReqCount (m + 1)"
  let ?ok = "reaches (ratio fp (jsMul fp r (of_int (m + 1))) (jsMul fp u (of_int ?t'))) l"
  let ?s' = "search fp u r l (m + 1) ?t'"
  have t': "?t' = cumulativeUnits (m + 1)"
    using "1.prems" cumulativeUnits_step [of m] by simp
  show ?case
  proof (cases "m < 50 \<and> ?ok")
    case True
    then have eq: "search fp u r l m t = ?s'"
      by (subst search.simps) simp
    have IH: "m + 1 \<le> ?s' \<and>
         (m + 1 \<le> 50 \<longrightarrow> ?s' \<le> 50) \<and>
         (\<forall>i. m + 1 < i \<and> i \<le> ?s' \<longrightarrow>
              reaches (ratio fp (jsMul fp r (of_int i))
                         (jsMul fp u (of_int (cumulativeUnits i)))) l) \<and>
         (?s' < 50 \<longrightarrow>
            \<not> reaches (ratio fp (jsMul fp r (of_int (?s' + 1)))
                         (jsMul fp u (of_int (cumulativeUnits (?s' + 1))))) l)"
      using "1.IH" True "1.prems" t' by simp
    have step: "reaches (ratio fp (jsMul fp r (of_int (m + 1)))
                  (jsMul fp u (of_int (cumulativeUnits (m + 1))))) l"
      using True t' by simp
    have "\<forall>i. m < i \<and> i \<le> ?s' \<longrightarrow>
              reaches (ratio fp (jsMul fp r (of_int i))
                         (jsMul fp u (of_int (cumulativeUnits i)))) l"
    proof (intro allI impI)
      fix i assume i: "m < i \<and> i \<le> ?s'"
      show "reaches (ratio fp (jsMul fp r (of_int i))
              (jsMul fp u (of_int (cumulativeUnits i)))) l"
      proof (cases "i = m + 1")
        case True
        with step show ?thesis by simp
      next
        case False
        with i have "m + 1 < i" by simp
        with i IH show ?thesis by blast
      qed
    qed
    with IH True show ?thesis
      unfolding eq by auto
  next
    case False
    then have eq: "search fp u r l m t = m"
      by (subst search.simps) auto
    from False t' show ?thesis
      unfolding eq by auto
  qed
qed

text \<open>
  With a unit cost below 0 every total cost is below 0, the ratio is 0 throughout, and a
  threshold of 0 or less is reached at every delivery: the search runs to its cap.
\<close>

lemma search_nonpositive_cost:
  assumes "u < 0" and "l \<le> 0" and "0 \<le> m" and "m \<le> 50" and "0 \<le> t"
  shows "search exact u r (Some l) m t = 50"
  using assms
proof (induction "exact" u r "Some l" m t rule: search.induct)
  case (1 u r m t)
  show ?case
  proof (cases "m < 50")
    case True
    have pos: "0 < t + getReqCount (m + 1)"
      using "1.prems"(5) by (simp add: getReqCount_def)
    with "1.prems"(1) have "u * of_int (t + getReqCount (m + 1)) < 0"
      by (simp add: mult_neg_pos)
    then have z: "ratio exact (jsMul exact r (of_int (m + 1)))
        (jsMul exact u (of_int (t + getReqCount (m + 1)))) = 0"
      by (simp add: ratio_def exact_def)
    have ok: "reaches (ratio exact (jsMul exact r (of_int (m + 1)))
        (jsMul exact u (of_int (t + getReqCount (m + 1))))) (Some l)"
      unfolding z using "1.prems"(2) by (simp add: reaches_def)
    have "search exact u r (Some l) (m + 1) (t + getReqCount (m + 1)) = 50"
      using "1.hyps" [OF True ok] "1.prems" True pos by simp
    with True ok show ?thesis
      by (subst search.simps) simp
  next
    case False
    with "1.prems" have "m = 50" by simp
    then show ?thesis
      by (subst search.simps) simp
  qed
qed

section \<open>Facts about the resolvers\<close>

text \<open>The stamina query can only fail by reading a setting of a dataset with no settings.\<close>

lemma getStamina_failure:
  "getStamina ds n vis lvl = Inl e \<Longrightarrow> e = TypeError \<and> settings ds = None"
  "getStamina_loop ds vis lvl f ings t = Inl e \<Longrightarrow> e = TypeError \<and> settings ds = None"
proof (induction ds n vis lvl and ds vis lvl f ings t rule: getStamina_getStamina_loop.induct)
  case (1 ds itemName visited conservationLevel)
  from "1.prems" "1.IH" show ?case
    by (subst (asm) getStamina.simps) (auto split: if_splits option.splits sum.splits)
next
  case (2 ds visited conservationLevel factor totalStamina)
  then show ?case by simp
next
  case (3 ds visited conservationLevel factor ingName c rest totalStamina)
  then show ?case by (auto split: sum.splits)
qed

lemma getStamina_total:
  assumes "settings ds \<noteq> None"
  shows "\<exists>v. getStamina ds n vis lvl = Inr v"
proof (cases "getStamina ds n vis lvl")
  case (Inl e)
  from getStamina_failure(1) [OF Inl] assms show ?thesis by simp
next
  case (Inr v)
  then show ?thesis by blast
qed

lemma floor_half: "\<lfloor>1 / 2 :: rat\<rfloor> = 0"
  by (simp add: floor_eq_iff)

section \<open>Materials\<close>

text \<open>
  C4, as claimed: the stamina resolver returns 0 for every known material. In \<open>ds_both\<close>
  the name X is a material (price 10) and also a recipe (stamina 4): the cost resolver
  takes it for the material, the stamina resolver, which looks only at the recipes,
  returns 4.
\<close>

theorem material_stamina_counterexample:
  "lookupMaterial ds_both ''X'' = Some 10 \<and>
   getMaterialCost ds_both ''X'' {} 0 = Inr 10 \<and>
   getStamina ds_both ''X'' {} 0 = Inr 4"
  by code_simp

text \<open>
  C4, amended. For a name that is a known material: with a price above 0 the
  material-cost and the total-cost resolver both return that price; with a price of 0 or
  less both fail with \<open>material_price_missing\<close> carrying the name; and the stamina
  resolver returns 0 when the name is not also the name of a recipe.
\<close>

theorem material_resolution:
  assumes "lookupMaterial ds name = Some price"
  shows "(0 < price \<longrightarrow>
            getMaterialCost ds name visited lvl = Inr price \<and>
            getTotalCostIncludingStamina ds name visited lvl = Inr price) \<and>
         (price \<le> 0 \<longrightarrow>
            getMaterialCost ds name visited lvl = Inl (material_price_missing name) \<and>
            getTotalCostIncludingStamina ds name visited lvl = Inl (material_price_missing name)) \<and>
         (findRecipe ds name = None \<longrightarrow> getStamina ds name visited lvl = Inr 0)"
  using assms
  by (simp add: getMaterialCost.simps getTotalCostIncludingStamina.simps getStamina.simps)

theorem material_resolution_witness:
  "getMaterialCost ds_chain ''M'' {} 0 = Inr 10 \<and>
   getTotalCostIncludingStamina ds_chain ''M'' {} 0 = Inr 10 \<and>
   getStamina ds_chain ''M'' {} 0 = Inr 0 \<and>
   getMaterialCost ds_chain ''N'' {} 0 = Inl (material_price_missing ''N'') \<and>
   getTotalCostIncludingStamina ds_chain ''N'' {} 0 = Inl (material_price_missing ''N'')"
proof -
  have m: "lookupMaterial ds_chain ''M'' = Some 10" and n: "lookupMaterial ds_chain ''N'' = Some 0"
    by (simp_all add: lookupMaterial_def ds_chain_def)
  have r: "findRecipe ds_chain ''M'' = None"
    by (simp add: findRecipe_def ds_chain_def)
  show ?thesis
    using material_resolution [OF m, of "{}" 0] material_resolution [OF n, of "{}" 0] r
    by simp
qed

section \<open>Stamina folded into the total cost\<close>

text \<open>
  C1. The claim is that the total cost is the material cost plus the stamina of the whole
  tree times the stamina value, each ingredient's stamina counted once. In \<open>ds_chain\<close>
  the recipe A (stamina 1) takes one B (stamina 1), which takes one M (price 10), and a
  point of stamina is worth 1: the material cost is 10 and the stamina is 2, yet the
  total cost is 13, because B's stamina enters through B's total cost and again through
  A's stamina.
\<close>

theorem total_cost_counts_ingredient_stamina_twice:
  "getTotalCostIncludingStamina ds_chain ''A'' {} 0 = Inr 13 \<and>
   getMaterialCost ds_chain ''A'' {} 0 = Inr 10 \<and>
   getStamina ds_chain ''A'' {} 0 = Inr 2 \<and>
   map_option stamina_cost (settings ds_chain) = Some (Some 1)"
  by code_simp

section \<open>Cycles in the stamina query\<close>

text \<open>
  C2, as claimed: a stamina query whose path revisits a name fails with
  \<open>circular_dependency\<close>. The recipe A of \<open>ds_self\<close> lists itself as an ingredient; the
  cost resolver reports the cycle, the stamina query returns the number 5.
\<close>

theorem getStamina_cycle_counterexample:
  "getStamina ds_self ''A'' {} 0 = Inr 5 \<and>
   getMaterialCost ds_self ''A'' {} 0 = Inl (circular_dependency ''A'')"
  by code_simp

text \<open>
  C2, amended. A name that is already in the tracking set contributes the stamina 0, and
  the stamina query never fails with \<open>circular_dependency\<close>; with settings present it
  always produces a number.
\<close>

theorem getStamina_revisit_is_zero:
  "(itemName \<in> visited \<longrightarrow> getStamina ds itemName visited lvl = Inr 0) \<and>
   getStamina ds itemName visited lvl \<noteq> Inl (circular_dependency x) \<and>
   (settings ds \<noteq> None \<longrightarrow> (\<exists>v. getStamina ds itemName visited lvl = Inr v))"
proof -
  have "itemName \<in> visited \<longrightarrow> getStamina ds itemName visited lvl = Inr 0"
    by (simp add: getStamina.simps)
  moreover have "getStamina ds itemName visited lvl \<noteq> Inl (circular_dependency x)"
    using getStamina_failure(1) [of ds itemName visited lvl "circular_dependency x"] by auto
  ultimately show ?thesis
    using getStamina_total [of ds itemName visited lvl] by blast
qed

theorem getStamina_revisit_is_zero_witness:
  "getStamina ds_self ''A'' {''A''} 0 = Inr 0 \<and> (\<exists>v. getStamina ds_self ''A'' {} 0 = Inr v)"
proof -
  have s: "settings ds_self \<noteq> None"
    by (simp add: ds_self_def)
  show ?thesis
    using getStamina_revisit_is_zero [of "''A''" "{''A''}" ds_self 0]
      getStamina_revisit_is_zero [of "''A''" "{}" ds_self 0] s
    by simp
qed

section \<open>Conservation level 0\<close>

text \<open>
  C5, as claimed: at conservation level 0 the effective count is the raw count, also for
  a count that is not an integer. The recipe A of \<open>ds_fraction\<close> takes 5/2 of M (price
  10): the count used is 3 and the cost 30, not 25.
\<close>

theorem level_zero_rounds_counterexample:
  "reducedCount (5 / 2) (reductionFactor \<lparr>stamina = Some 0, category = None,
      ingredients = Some [(''M'', 5 / 2)]\<rparr> 0) = 3 \<and>
   getMaterialCost ds_fraction ''A'' {} 0 = Inr 30 \<and>
   getTotalCostIncludingStamina ds_fraction ''A'' {} 0 = Inr 30"
  by code_simp

text \<open>
  What a loop over the ingredients returns when it succeeds: the starting value plus, for
  each ingredient, what the resolver returns for it times the count rounded after the
  factor is applied.
\<close>

lemma getMaterialCost_loop_sum:
  "getMaterialCost_loop ds vis lvl f ings cost = Inr res \<Longrightarrow>
     res = cost + (\<Sum>(m, c)\<leftarrow>ings.
                       projr (getMaterialCost ds m vis lvl) * of_int \<lfloor>c * f + 1 / 2\<rfloor>)"
proof (induction ings arbitrary: cost)
  case Nil
  then show ?case by simp
next
  case (Cons a ings)
  obtain m c where a: "a = (m, c)"
    by (cases a)
  show ?case
  proof (cases "getMaterialCost ds m vis lvl")
    case (Inl e)
    with Cons.prems a show ?thesis by simp
  next
    case (Inr v)
    with Cons.prems a
    have "getMaterialCost_loop ds vis lvl f ings (cost + v * reducedCount c f) = Inr res"
      by simp
    from Cons.IH [OF this] Inr a show ?thesis
      by (simp add: reducedCount_def Math_round_def)
  qed
qed

lemma getTotalCostIncludingStamina_loop_sum:
  "getTotalCostIncludingStamina_loop ds vis lvl f ings cost = Inr res \<Longrightarrow>
     res = cost + (\<Sum>(m, c)\<leftarrow>ings.
                       projr (getTotalCostIncludingStamina ds m vis lvl) *
                       of_int \<lfloor>c * f + 1 / 2\<rfloor>)"
proof (induction ings arbitrary: cost)
  case Nil
  then show ?case by simp
next
  case (Cons a ings)
  obtain m c where a: "a = (m, c)"
    by (cases a)
  show ?case
  proof (cases "getTotalCostIncludingStamina ds m vis lvl")
    case (Inl e)
    with Cons.prems a show ?thesis by simp
  next
    case (Inr v)
    with Cons.prems a
    have "getTotalCostIncludingStamina_loop ds vis lvl f ings (cost + v * reducedCount c f) =
            Inr res"
      by simp
    from Cons.IH [OF this] Inr a show ?thesis
      by (simp add: reducedCount_def Math_round_def)
  qed
qed

lemma getStamina_loop_sum:
  "getStamina_loop ds vis lvl f ings t = Inr res \<Longrightarrow>
     res = t + (\<Sum>(m, c)\<leftarrow>ings.
                    projr (getStamina ds m vis lvl) * of_int \<lfloor>c * f + 1 / 2\<rfloor>)"
proof (induction ings arbitrary: t)
  case Nil
  then show ?case by simp
next
  case (Cons a ings)
  obtain m c where a: "a = (m, c)"
    by (cases a)
  show ?case
  proof (cases "getStamina ds m vis lvl")
    case (Inl e)
    with Cons.prems a show ?thesis by simp
  next
    case (Inr v)
    with Cons.prems a
    have "getStamina_loop ds vis lvl f ings (t + v * reducedCount c f) = Inr res"
      by simp
    from Cons.IH [OF this] Inr a show ?thesis
      by (simp add: reducedCount_def Math_round_def)
  qed
qed

text \<open>
  C5, amended. At conservation level 0 the reduction factor is 1 for every recipe, and
  each resolver uses, for an ingredient of raw count \<open>c\<close>, the count rounded to the
  nearest integer (a half going up): the material cost of a recipe is the sum over its
  ingredients of their material cost times the rounded count, the total cost is the
  like sum of total costs plus the recipe's stamina times the stamina value, and the
  stamina is the recipe's own plus the like sum of staminas (less its own for an
  intermediate product when those are ignored). The count used equals the raw count
  exactly when the raw count is an integer.
\<close>

theorem level_zero_counts:
  assumes "lookupMaterial ds n = None"
    and "findRecipe ds n = Some r"
    and "n \<notin> visited"
    and "ingredients r = Some ings"
    and "settings ds = Some st"
  shows "reductionFactor r 0 = 1 \<and>
    (getMaterialCost ds n visited 0 = Inr tM \<longrightarrow>
       tM = (\<Sum>(m, c)\<leftarrow>ings.
               projr (getMaterialCost ds m (insert n visited) 0) * of_int \<lfloor>c + 1 / 2\<rfloor>)) \<and>
    (getTotalCostIncludingStamina ds n visited 0 = Inr tT \<longrightarrow>
       tT = (\<Sum>(m, c)\<leftarrow>ings.
               projr (getTotalCostIncludingStamina ds m (insert n visited) 0) *
               of_int \<lfloor>c + 1 / 2\<rfloor>) +
            projr (getStamina ds n {} 0) *
              (case stamina_cost st of None \<Rightarrow> 0 | Some v \<Rightarrow> v)) \<and>
    (getStamina ds n visited 0 = Inr tS \<longrightarrow>
       tS = (case stamina r of None \<Rightarrow> 0 | Some v \<Rightarrow> v) +
            (\<Sum>(m, c)\<leftarrow>ings.
               projr (getStamina ds m (insert n visited) 0) * of_int \<lfloor>c + 1 / 2\<rfloor>) -
            (if ignoreIntermediateStamina st \<and> exempt r
             then (case stamina r of None \<Rightarrow> 0 | Some v \<Rightarrow> v) else 0)) \<and>
    reducedCount c (reductionFactor r 0) = of_int \<lfloor>c + 1 / 2\<rfloor> \<and>
    (reducedCount c (reductionFactor r 0) = c \<longleftrightarrow> c \<in> \<int>)"
proof -
  have f: "reductionFactor r 0 = 1"
    by (simp add: reductionFactor_def)
  have mat: "tM = (\<Sum>(m, c)\<leftarrow>ings.
               projr (getMaterialCost ds m (insert n visited) 0) * of_int \<lfloor>c + 1 / 2\<rfloor>)"
    if "getMaterialCost ds n visited 0 = Inr tM"
  proof -
    from that assms f have "getMaterialCost_loop ds (insert n visited) 0 1 ings 0 = Inr tM"
      by (subst (asm) getMaterialCost.simps) simp
    from getMaterialCost_loop_sum [OF this] show ?thesis
      by simp
  qed
  have tot: "tT = (\<Sum>(m, c)\<leftarrow>ings.
               projr (getTotalCostIncludingStamina ds m (insert n visited) 0) *
               of_int \<lfloor>c + 1 / 2\<rfloor>) +
            projr (getStamina ds n {} 0) *
              (case stamina_cost st of None \<Rightarrow> 0 | Some v \<Rightarrow> v)"
    if "getTotalCostIncludingStamina ds n visited 0 = Inr tT"
  proof -
    from that assms f obtain cost where
      c: "getTotalCostIncludingStamina_loop ds (insert n visited) 0 1 ings 0 = Inr cost"
      and t: "tT = cost + projr (getStamina ds n {} 0) *
                (case stamina_cost st of None \<Rightarrow> 0 | Some v \<Rightarrow> v)"
      by (subst (asm) getTotalCostIncludingStamina.simps) (auto split: sum.splits)
    from getTotalCostIncludingStamina_loop_sum [OF c] t show ?thesis
      by simp
  qed
  have sta: "tS = (case stamina r of None \<Rightarrow> 0 | Some v \<Rightarrow> v) +
            (\<Sum>(m, c)\<leftarrow>ings.
               projr (getStamina ds m (insert n visited) 0) * of_int \<lfloor>c + 1 / 2\<rfloor>) -
            (if ignoreIntermediateStamina st \<and> exempt r
             then (case stamina r of None \<Rightarrow> 0 | Some v \<Rightarrow> v) else 0)"
    if "getStamina ds n visited 0 = Inr tS"
  proof -
    from that assms f obtain res where
      l: "getStamina_loop ds (insert n visited) 0 1 ings
            (case stamina r of None \<Rightarrow> 0 | Some v \<Rightarrow> v) = Inr res"
      and t: "tS = res - (if ignoreIntermediateStamina st \<and> exempt r
             then (case stamina r of None \<Rightarrow> 0 | Some v \<Rightarrow> v) else 0)"
      by (subst (asm) getStamina.simps) (auto split: sum.splits if_splits)
    from getStamina_loop_sum [OF l] t show ?thesis
      by simp
  qed
  have cnt: "reducedCount c (reductionFactor r 0) = of_int \<lfloor>c + 1 / 2\<rfloor>"
    by (simp add: f reducedCount_def Math_round_def)
  have int: "reducedCount c (reductionFactor r 0) = c \<longleftrightarrow> c \<in> \<int>"
  proof
    assume "reducedCount c (reductionFactor r 0) = c"
    with cnt have "c = of_int \<lfloor>c + 1 / 2\<rfloor>"
      by simp
    then show "c \<in> \<int>"
      by (metis Ints_of_int)
  next
    assume "c \<in> \<int>"
    then obtain k where "c = of_int k"
      by (auto elim: Ints_cases)
    then show "reducedCount c (reductionFactor r 0) = c"
      by (simp add: f reducedCount_def Math_round_def floor_half)
  qed
  from f mat tot sta cnt int show ?thesis
    by blast
qed

theorem level_zero_counts_witness:
  "30 = (\<Sum>(m, c)\<leftarrow>[(''M'', 5 / 2 :: rat)].
           projr (getMaterialCost ds_fraction m {''A''} 0) * of_int \<lfloor>c + 1 / 2\<rfloor>) \<and>
   30 = (\<Sum>(m, c)\<leftarrow>[(''M'', 5 / 2 :: rat)].
           projr (getTotalCostIncludingStamina ds_fraction m {''A''} 0) *
           of_int \<lfloor>c + 1 / 2\<rfloor>) +
        projr (getStamina ds_fraction ''A'' {} 0) * 1 \<and>
   (5 / 2 :: rat) \<notin> \<int> \<and>
   reducedCount 4 (reductionFactor \<lparr>stamina = Some 0, category = None,
      ingredients = Some [(''M'', 5 / 2)]\<rparr> 0) = 4"
proof -
  let ?r = "\<lparr>stamina = Some (0 :: rat), category = None,
              ingredients = Some [(''M'', 5 / 2 :: rat)]\<rparr>"
  let ?st = "\<lparr>stamina_cost = Some (1 :: rat), efficiency_limit = Some (36 / 100 :: rat),
               conservation_level = Some (0 :: rat), ignoreIntermediateStamina = False\<rparr>"
  have h: "lookupMaterial ds_fraction ''A'' = None" "findRecipe ds_fraction ''A'' = Some ?r"
    "''A'' \<notin> ({} :: string set)" "ingredients ?r = Some [(''M'', 5 / 2)]"
    "settings ds_fraction = Some ?st"
    by (simp_all add: lookupMaterial_def findRecipe_def ds_fraction_def)
  have v: "getMaterialCost ds_fraction ''A'' {} 0 = Inr 30"
    "getTotalCostIncludingStamina ds_fraction ''A'' {} 0 = Inr 30"
    by code_simp+
  have k: "(4 :: rat) \<in> \<int>"
    by simp
  have n: "reducedCount (5 / 2) (reductionFactor ?r 0) \<noteq> 5 / 2"
    by (simp add: reductionFactor_def reducedCount_def Math_round_def)
  note t = level_zero_counts [OF h, where tM = 30 and tT = 30]
  have a: "30 = (\<Sum>(m, c)\<leftarrow>[(''M'', 5 / 2 :: rat)].
                  projr (getMaterialCost ds_fraction m {''A''} 0) * of_int \<lfloor>c + 1 / 2\<rfloor>)"
    by (rule t [where c = "5 / 2", THEN conjunct2, THEN conjunct1, THEN mp, OF v(1)])
  have b: "30 = (\<Sum>(m, c)\<leftarrow>[(''M'', 5 / 2 :: rat)].
                  projr (getTotalCostIncludingStamina ds_fraction m {''A''} 0) *
                  of_int \<lfloor>c + 1 / 2\<rfloor>) +
               projr (getStamina ds_fraction ''A'' {} 0) *
                 (case stamina_cost ?st of None \<Rightarrow> 0 | Some v \<Rightarrow> v)"
    by (rule t [where c = "5 / 2", THEN conjunct2, THEN conjunct2, THEN conjunct1, THEN mp,
          OF v(2)])
  have i: "reducedCount (5 / 2) (reductionFactor ?r 0) = 5 / 2 \<longleftrightarrow> (5 / 2 :: rat) \<in> \<int>"
    by (rule t [where c = "5 / 2", THEN conjunct2, THEN conjunct2, THEN conjunct2,
          THEN conjunct2, THEN conjunct2])
  from b have b': "30 = (\<Sum>(m, c)\<leftarrow>[(''M'', 5 / 2 :: rat)].
                  projr (getTotalCostIncludingStamina ds_fraction m {''A''} 0) *
                  of_int \<lfloor>c + 1 / 2\<rfloor>) +
               projr (getStamina ds_fraction ''A'' {} 0) * 1"
    by simp
  from i n have j: "(5 / 2 :: rat) \<notin> \<int>"
    by blast
  from t [where c = 4, THEN conjunct2, THEN conjunct2, THEN conjunct2, THEN conjunct2,
      THEN conjunct2] k
  have l: "reducedCount 4 (reductionFactor ?r 0) = 4"
    by (rule iffD2)
  from a b' j l show ?thesis
    by blast
qed

section \<open>Fixed simulation\<close>

text \<open>
  C7. In fixed-simulation mode the labels 1, 2, 3, 5 and 10 stand for 1, 2, 10, 20 and 25
  deliveries (label 3 for 10). Once the three resolvers have succeeded with a unit cost
  other than 0, the result is the report for that count, whatever the efficiency
  threshold of the dataset: it recommends, its round is the count, its total of items is
  the sum of \<open>getReqCount\<close> over 1 to the count, and its profit is the reward times the
  count (the product the machine computes).
\<close>

theorem fixed_simulation:
  assumes "getMaterialCost ds itemName {} (configuredLevel ds) = Inr consumedCoinV"
    and "getTotalCostIncludingStamina ds itemName {} (configuredLevel ds) = Inr unitCostV"
    and "getStamina ds itemName {} (configuredLevel ds) = Inr unitStaminaV"
    and "unitCostV \<noteq> 0"
    and "(label, k) \<in> set [(''1'', 1), (''2'', 2), (''3'', 10), (''5'', 20), (''10'', 25)]"
  shows "deliveryMap label = Some k \<and>
         (\<exists>e. calcEfficiency fp ds itemName reward label = Inr (Evaluation e) \<and>
              e = report fp label (Some k) (cumulativeUnits k) reward unitCostV consumedCoinV
                    unitStaminaV \<and>
              recommend e \<and> round_n e = Some k \<and>
              totalItems e = (\<Sum>i = 1..k. getReqCount i) \<and>
              totalProfit e = Some (jsMul fp reward (of_int k)))"
proof -
  from assms(5) have k: "deliveryMap label = Some k" "label \<noteq> ''default''" "0 < k"
    by (auto simp: deliveryMap_def)
  then have "sumReq 1 k 0 = cumulativeUnits k"
    by (simp add: sumReq_cumulative)
  with k assms(1-4) show ?thesis
    by (simp add: calcEfficiency_def evaluate_def report_def cumulativeUnits_def)
qed

theorem fixed_simulation_witness:
  "calcEfficiency exact ds_chain ''A'' 5 ''3'' =
     Inr (Evaluation \<lparr>mode = ''3'', recommend = True, msg = None, round_n = Some 10,
          totalItems = 27, totalProfit = Some 50,
          averageEfficiency = ''0.142'', unitCost = ''13.0'',
          consumedCoin = ''270.0'', totalCost = ''351'',
          totalStamina = ''54''\<rparr>)"
proof -
  have h: "getMaterialCost ds_chain ''A'' {} (configuredLevel ds_chain) = Inr 10"
    "getTotalCostIncludingStamina ds_chain ''A'' {} (configuredLevel ds_chain) = Inr 13"
    "getStamina ds_chain ''A'' {} (configuredLevel ds_chain) = Inr 2"
    by code_simp+
  have l: "(''3'', 10) \<in> set [(''1'', 1), (''2'', 2), (''3'', 10 :: int), (''5'', 20), (''10'', 25)]"
    by simp
  have r: "report exact ''3'' (Some 10) (cumulativeUnits 10) 5 13 10 2 =
     \<lparr>mode = ''3'', recommend = True, msg = None, round_n = Some 10,
          totalItems = 27, totalProfit = Some 50,
          averageEfficiency = ''0.142'', unitCost = ''13.0'',
          consumedCoin = ''270.0'', totalCost = ''351'',
          totalStamina = ''54''\<rparr>"
    by code_simp
  from fixed_simulation [OF h _ l, where fp = exact and reward = 5] r show ?thesis
    by simp
qed

section \<open>Best achievable mode\<close>

text \<open>
  C6, as claimed: whenever the search ends at 1 or more, the average efficiency reported
  is the total profit over the total cost. In \<open>ds_negative\<close> the recipe A costs 4
  stamina and a point of stamina is valued at -5, so its unit cost is -20; with the
  threshold -1 and the reward 5 the search runs to 50 and the milestone is 25, with 127
  items, profit 125 and total cost -2540. The efficiency reported is 0, not
  125 / -2540: the code takes the quotient only for a total cost above 0.
\<close>

theorem best_achievable_counterexample:
  "calcEfficiency exact ds_negative ''A'' 5 ''default'' =
     Inr (Evaluation \<lparr>mode = ''default'', recommend = True, msg = None, round_n = Some 25,
          totalItems = 127, totalProfit = Some 125,
          averageEfficiency = ''0.000'', unitCost = ''-20.0'',
          consumedCoin = ''0.0'', totalCost = ''-2540'',
          totalStamina = ''508''\<rparr>) \<and>
   toFixed (125 / (- 2540)) 3 = ''-0.049''"
proof -
  have h: "getMaterialCost ds_negative ''A'' {} (configuredLevel ds_negative) = Inr 0"
    "getTotalCostIncludingStamina ds_negative ''A'' {} (configuredLevel ds_negative) = Inr (- 20)"
    "getStamina ds_negative ''A'' {} (configuredLevel ds_negative) = Inr 4"
    by code_simp+
  have st: "settings ds_negative =
      Some \<lparr>stamina_cost = Some (- 5), efficiency_limit = Some (- 1),
            conservation_level = Some 0, ignoreIntermediateStamina = False\<rparr>"
    by (simp add: ds_negative_def)
  have s: "search exact (- 20) 5 (Some (- 1)) 0 0 = 50"
    by (rule search_nonpositive_cost) simp_all
  have f: "find (\<lambda>m. m \<le> 50) milestones = Some 25"
    by (simp add: milestones_def)
  have q: "sumReq 1 25 0 = 127"
  proof -
    have "cumulativeUnits 25 = 127"
      by code_simp
    then show ?thesis
      by (simp add: sumReq_cumulative)
  qed
  have r: "report exact ''default'' (Some 25) 127 5 (- 20) 0 4 =
     \<lparr>mode = ''default'', recommend = True, msg = None, round_n = Some 25,
          totalItems = 127, totalProfit = Some 125,
          averageEfficiency = ''0.000'', unitCost = ''-20.0'',
          consumedCoin = ''0.0'', totalCost = ''-2540'',
          totalStamina = ''508''\<rparr>"
    by code_simp
  have c: "calcEfficiency exact ds_negative ''A'' 5 ''default'' =
      Inr (Evaluation (report exact ''default'' (Some 25) 127 5 (- 20) 0 4))"
    by (simp add: calcEfficiency_def h evaluate_def st s f q)
  have t: "toFixed (125 / (- 2540)) 3 = ''-0.049''"
    by code_simp
  from c r t show ?thesis
    by simp
qed

text \<open>
  C6, amended. In best-achievable mode, when the search ends at \<open>maxDeliveries\<close> of at
  least 1, the round recommended is the largest of the milestones 25, 20, 10, 2, 1 that
  is at most \<open>maxDeliveries\<close>, and the aggregates are those of the milestone: the items
  are the sum of \<open>getReqCount\<close> over 1 to the milestone, the profit is the reward times
  the milestone, the total cost printed is the unit cost times the items, and the
  average efficiency printed is the profit over that cost when the cost is above 0, and
  0 otherwise. The search stops at 50, every delivery up to \<open>maxDeliveries\<close> reaches
  the threshold with its cumulative ratio (profit over cost when the cost is above 0,
  else 0), and below 50 the next one does not. Products and quotients are the
  machine's, whatever it rounds them to.
\<close>

theorem best_achievable:
  assumes "getMaterialCost ds itemName {} (configuredLevel ds) = Inr consumedCoinV"
    and "getTotalCostIncludingStamina ds itemName {} (configuredLevel ds) = Inr unitCostV"
    and "getStamina ds itemName {} (configuredLevel ds) = Inr unitStaminaV"
    and "unitCostV \<noteq> 0"
    and "settings ds = Some stg"
    and "maxDeliveries = search fp unitCostV reward (efficiency_limit stg) 0 0"
    and "1 \<le> maxDeliveries"
  shows "\<exists>e m. calcEfficiency fp ds itemName reward ''default'' = Inr (Evaluation e) \<and>
           recommend e \<and> round_n e = Some m \<and>
           m \<in> {25, 20, 10, 2, 1} \<and> m \<le> maxDeliveries \<and>
           (\<forall>m' \<in> {25, 20, 10, 2, 1}. m' \<le> maxDeliveries \<longrightarrow> m' \<le> m) \<and>
           totalItems e = (\<Sum>i = 1..m. getReqCount i) \<and>
           totalProfit e = Some (jsMul fp reward (of_int m)) \<and>
           totalCost e = jsToFixed fp (jsMul fp unitCostV (of_int (totalItems e))) 0 \<and>
           averageEfficiency e =
             jsToFixed fp
               (if 0 < jsMul fp unitCostV (of_int (totalItems e))
                then jsDiv fp (jsMul fp reward (of_int m))
                       (jsMul fp unitCostV (of_int (totalItems e)))
                else 0) 3 \<and>
           maxDeliveries \<le> 50 \<and>
           (\<forall>i \<in> {1..maxDeliveries}.
              reaches
                (ratio fp (jsMul fp reward (of_int i))
                   (jsMul fp unitCostV (of_int (\<Sum>j = 1..i. getReqCount j))))
                (efficiency_limit stg)) \<and>
           (maxDeliveries < 50 \<longrightarrow>
              \<not> reaches
                  (ratio fp (jsMul fp reward (of_int (maxDeliveries + 1)))
                     (jsMul fp unitCostV (of_int (\<Sum>j = 1..maxDeliveries + 1. getReqCount j))))
                  (efficiency_limit stg))"
proof -
  from find_milestone [OF assms(7)] obtain m where
    m: "find (\<lambda>m. m \<le> maxDeliveries) milestones = Some m" "m \<in> set milestones"
       "m \<le> maxDeliveries" "\<forall>m' \<in> set milestones. m' \<le> maxDeliveries \<longrightarrow> m' \<le> m"
    by blast
  from m(2) have mpos: "0 < m" and mset: "m \<in> {25, 20, 10, 2, 1}"
    by (auto simp: milestones_def)
  have items: "sumReq 1 m 0 = cumulativeUnits m"
    using mpos by (simp add: sumReq_cumulative)
  let ?e = "report fp ''default'' (Some m) (cumulativeUnits m) reward unitCostV consumedCoinV
              unitStaminaV"
  have calc: "calcEfficiency fp ds itemName reward ''default'' = Inr (Evaluation ?e)"
    using assms m(1) items
    by (simp add: calcEfficiency_def evaluate_def)
  have fields: "recommend ?e" "round_n ?e = Some m"
    "totalItems ?e = (\<Sum>i = 1..m. getReqCount i)"
    "totalProfit ?e = Some (jsMul fp reward (of_int m))"
    "totalCost ?e = jsToFixed fp (jsMul fp unitCostV (of_int (totalItems ?e))) 0"
    "averageEfficiency ?e =
       jsToFixed fp
         (if 0 < jsMul fp unitCostV (of_int (totalItems ?e))
          then jsDiv fp (jsMul fp reward (of_int m))
                 (jsMul fp unitCostV (of_int (totalItems ?e)))
          else 0) 3"
    by (simp_all add: report_def cumulativeUnits_def ratio_def)
  have ms: "\<forall>m' \<in> {25, 20, 10, 2, 1}. m' \<le> maxDeliveries \<longrightarrow> m' \<le> m"
    using m(4) by (simp add: milestones_def)
  have zero: "(0::int) = cumulativeUnits 0"
    by (simp add: cumulativeUnits_def)
  note sp = search_spec [of 0 0 fp unitCostV reward "efficiency_limit stg", OF _ zero,
      folded assms(6)]
  have s1: "maxDeliveries \<le> 50"
    using sp by simp
  have s2: "\<forall>i \<in> {1..maxDeliveries}.
      reaches
        (ratio fp (jsMul fp reward (of_int i))
           (jsMul fp unitCostV (of_int (\<Sum>j = 1..i. getReqCount j))))
        (efficiency_limit stg)"
    using sp by (simp add: cumulativeUnits_def)
  have s3: "maxDeliveries < 50 \<longrightarrow>
      \<not> reaches
          (ratio fp (jsMul fp reward (of_int (maxDeliveries + 1)))
             (jsMul fp unitCostV (of_int (\<Sum>j = 1..maxDeliveries + 1. getReqCount j))))
          (efficiency_limit stg)"
    using sp by (simp add: cumulativeUnits_def)
  from calc fields mset m(3) ms s1 s2 s3 show ?thesis
    by blast
qed

theorem best_achievable_witness:
  "\<exists>e. calcEfficiency exact ds_chain ''A'' 15 ''default'' = Inr (Evaluation e) \<and>
       recommend e \<and> round_n e = Some 10 \<and> totalItems e = 27 \<and> totalProfit e = Some 150 \<and>
       totalCost e = ''351'' \<and> averageEfficiency e = ''0.427''"
proof -
  let ?stg = "\<lparr>stamina_cost = Some 1, efficiency_limit = Some (36 / 100),
                conservation_level = Some 0, ignoreIntermediateStamina = False\<rparr>"
  have h: "getMaterialCost ds_chain ''A'' {} (configuredLevel ds_chain) = Inr 10"
    "getTotalCostIncludingStamina ds_chain ''A'' {} (configuredLevel ds_chain) = Inr 13"
    "getStamina ds_chain ''A'' {} (configuredLevel ds_chain) = Inr 2"
    by code_simp+
  have nz: "(13 :: rat) \<noteq> 0"
    by simp
  have st: "settings ds_chain = Some ?stg"
    by (simp add: ds_chain_def)
  have s: "12 = search exact 13 15 (efficiency_limit ?stg) 0 0"
    by code_simp
  have one: "(1 :: int) \<le> 12"
    by simp
  from best_achievable [OF h nz st s one] obtain e m where
    e: "calcEfficiency exact ds_chain ''A'' 15 ''default'' = Inr (Evaluation e)" "recommend e"
       "round_n e = Some m" "m \<in> {25, 20, 10, 2, 1}" "m \<le> 12"
       "\<forall>m' \<in> {25, 20, 10, 2, 1}. m' \<le> 12 \<longrightarrow> m' \<le> m"
       "totalItems e = (\<Sum>i = 1..m. getReqCount i)"
       "totalProfit e = Some (jsMul exact 15 (of_int m))"
       "totalCost e = jsToFixed exact (jsMul exact 13 (of_int (totalItems e))) 0"
       "averageEfficiency e =
          jsToFixed exact
            (if 0 < jsMul exact 13 (of_int (totalItems e))
             then jsDiv exact (jsMul exact 15 (of_int m)) (jsMul exact 13 (of_int (totalItems e)))
             else 0) 3"
    by blast
  from e(4-6) have m: "m = 10"
    by auto
  have c: "(\<Sum>i = 1..10. getReqCount i) = 27"
    by code_simp
  have f: "toFixed (13 * of_int 27) 0 = ''351''"
    "toFixed (15 * of_int 10 / (13 * of_int 27)) 3 = ''0.427''"
    by code_simp+
  from e(1-3,7-10) m c f show ?thesis
    by (simp add: exact_def)
qed

section \<open>The conservation level of the optimizer\<close>

text \<open>
  C10. When the settings are absent or carry no \<open>conservation_level\<close>, \<open>calcEfficiency\<close>
  resolves the material cost, the unit cost and the stamina at conservation level 10;
  when the level is set, it resolves all three at that value.
\<close>

theorem conservation_level_default:
  "((settings ds = None \<or> (\<exists>stg. settings ds = Some stg \<and> conservation_level stg = None)) \<longrightarrow>
      calcEfficiency fp ds itemName reward deliveryMode =
        (case getMaterialCost ds itemName {} 10 of
           Inl e \<Rightarrow> Inl e
         | Inr consumedCoinV \<Rightarrow>
             (case getTotalCostIncludingStamina ds itemName {} 10 of
                Inl e \<Rightarrow> Inl e
              | Inr unitCostV \<Rightarrow>
                  (case getStamina ds itemName {} 10 of
                     Inl e \<Rightarrow> Inl e
                   | Inr unitStaminaV \<Rightarrow>
                       evaluate fp ds reward deliveryMode consumedCoinV unitCostV unitStaminaV)))) \<and>
   (\<forall>stg c. settings ds = Some stg \<and> conservation_level stg = Some c \<longrightarrow>
      calcEfficiency fp ds itemName reward deliveryMode =
        (case getMaterialCost ds itemName {} c of
           Inl e \<Rightarrow> Inl e
         | Inr consumedCoinV \<Rightarrow>
             (case getTotalCostIncludingStamina ds itemName {} c of
                Inl e \<Rightarrow> Inl e
              | Inr unitCostV \<Rightarrow>
                  (case getStamina ds itemName {} c of
                     Inl e \<Rightarrow> Inl e
                   | Inr unitStaminaV \<Rightarrow>
                       evaluate fp ds reward deliveryMode consumedCoinV unitCostV unitStaminaV))))"
proof (intro conjI impI allI)
  assume "settings ds = None \<or> (\<exists>stg. settings ds = Some stg \<and> conservation_level stg = None)"
  then have L: "configuredLevel ds = 10"
    by (auto simp: configuredLevel_def)
  show "calcEfficiency fp ds itemName reward deliveryMode =
        (case getMaterialCost ds itemName {} 10 of
           Inl e \<Rightarrow> Inl e
         | Inr consumedCoinV \<Rightarrow>
             (case getTotalCostIncludingStamina ds itemName {} 10 of
                Inl e \<Rightarrow> Inl e
              | Inr unitCostV \<Rightarrow>
                  (case getStamina ds itemName {} 10 of
                     Inl e \<Rightarrow> Inl e
                   | Inr unitStaminaV \<Rightarrow>
                       evaluate fp ds reward deliveryMode consumedCoinV unitCostV unitStaminaV)))"
    unfolding calcEfficiency_def L by (rule refl)
next
  fix stg c
  assume "settings ds = Some stg \<and> conservation_level stg = Some c"
  then have L: "configuredLevel ds = c"
    by (auto simp: configuredLevel_def)
  show "calcEfficiency fp ds itemName reward deliveryMode =
        (case getMaterialCost ds itemName {} c of
           Inl e \<Rightarrow> Inl e
         | Inr consumedCoinV \<Rightarrow>
             (case getTotalCostIncludingStamina ds itemName {} c of
                Inl e \<Rightarrow> Inl e
              | Inr unitCostV \<Rightarrow>
                  (case getStamina ds itemName {} c of
                     Inl e \<Rightarrow> Inl e
                   | Inr unitStaminaV \<Rightarrow>
                       evaluate fp ds reward deliveryMode consumedCoinV unitCostV unitStaminaV)))"
    unfolding calcEfficiency_def L by (rule refl)
qed

theorem conservation_level_default_witness:
  "calcEfficiency exact ds_unset ''A'' 5 ''1'' =
     Inr (Evaluation \<lparr>mode = ''1'', recommend = True, msg = None, round_n = Some 1,
          totalItems = 1, totalProfit = Some 5,
          averageEfficiency = ''0.250'', unitCost = ''20.0'',
          consumedCoin = ''20.0'', totalCost = ''20'',
          totalStamina = ''0''\<rparr>) \<and>
   getTotalCostIncludingStamina ds_unset ''A'' {} 0 = Inr 40 \<and>
   calcEfficiency exact (ds_unset\<lparr>settings := Some \<lparr>stamina_cost = Some 1,
        efficiency_limit = Some (36 / 100), conservation_level = Some 0,
        ignoreIntermediateStamina = False\<rparr>\<rparr>) ''A'' 5 ''1'' =
     Inr (Evaluation \<lparr>mode = ''1'', recommend = True, msg = None, round_n = Some 1,
          totalItems = 1, totalProfit = Some 5,
          averageEfficiency = ''0.125'', unitCost = ''40.0'',
          consumedCoin = ''40.0'', totalCost = ''40'',
          totalStamina = ''0''\<rparr>)"
proof -
  let ?s0 = "\<lparr>stamina_cost = Some 1, efficiency_limit = Some (36 / 100),
               conservation_level = Some (0 :: rat), ignoreIntermediateStamina = False\<rparr>"
  let ?ds0 = "ds_unset\<lparr>settings := Some ?s0\<rparr>"
  have u: "settings ds_unset = None \<or>
           (\<exists>stg. settings ds_unset = Some stg \<and> conservation_level stg = None)"
    by (simp add: ds_unset_def)
  have d: "settings ?ds0 = Some ?s0 \<and> conservation_level ?s0 = Some 0"
    by simp
  have r10: "(case getMaterialCost ds_unset ''A'' {} 10 of
           Inl e \<Rightarrow> Inl e
         | Inr consumedCoinV \<Rightarrow>
             (case getTotalCostIncludingStamina ds_unset ''A'' {} 10 of
                Inl e \<Rightarrow> Inl e
              | Inr unitCostV \<Rightarrow>
                  (case getStamina ds_unset ''A'' {} 10 of
                     Inl e \<Rightarrow> Inl e
                   | Inr unitStaminaV \<Rightarrow>
                       evaluate exact ds_unset 5 ''1'' consumedCoinV unitCostV unitStaminaV))) =
     Inr (Evaluation \<lparr>mode = ''1'', recommend = True, msg = None, round_n = Some 1,
          totalItems = 1, totalProfit = Some 5,
          averageEfficiency = ''0.250'', unitCost = ''20.0'',
          consumedCoin = ''20.0'', totalCost = ''20'',
          totalStamina = ''0''\<rparr>)"
    by code_simp
  have r0: "(case getMaterialCost ?ds0 ''A'' {} 0 of
           Inl e \<Rightarrow> Inl e
         | Inr consumedCoinV \<Rightarrow>
             (case getTotalCostIncludingStamina ?ds0 ''A'' {} 0 of
                Inl e \<Rightarrow> Inl e
              | Inr unitCostV \<Rightarrow>
                  (case getStamina ?ds0 ''A'' {} 0 of
                     Inl e \<Rightarrow> Inl e
                   | Inr unitStaminaV \<Rightarrow>
                       evaluate exact ?ds0 5 ''1'' consumedCoinV unitCostV unitStaminaV))) =
     Inr (Evaluation \<lparr>mode = ''1'', recommend = True, msg = None, round_n = Some 1,
          totalItems = 1, totalProfit = Some 5,
          averageEfficiency = ''0.125'', unitCost = ''40.0'',
          consumedCoin = ''40.0'', totalCost = ''40'',
          totalStamina = ''0''\<rparr>)"
    by code_simp
  have t0: "getTotalCostIncludingStamina ds_unset ''A'' {} 0 = Inr 40"
    by code_simp
  from conservation_level_default [of ds_unset exact "''A''" 5 "''1''"] u r10
  have a: "calcEfficiency exact ds_unset ''A'' 5 ''1'' =
     Inr (Evaluation \<lparr>mode = ''1'', recommend = True, msg = None, round_n = Some 1,
          totalItems = 1, totalProfit = Some 5,
          averageEfficiency = ''0.250'', unitCost = ''20.0'',
          consumedCoin = ''20.0'', totalCost = ''20'',
          totalStamina = ''0''\<rparr>)"
    by presburger
  from conservation_level_default [of ?ds0 exact "''A''" 5 "''1''"] d r0
  have b: "calcEfficiency exact ?ds0 ''A'' 5 ''1'' =
     Inr (Evaluation \<lparr>mode = ''1'', recommend = True, msg = None, round_n = Some 1,
          totalItems = 1, totalProfit = Some 5,
          averageEfficiency = ''0.125'', unitCost = ''40.0'',
          consumedCoin = ''40.0'', totalCost = ''40'',
          totalStamina = ''0''\<rparr>)"
    by metis
  from a b t0 show ?thesis
    by blast
qed

section \<open>The stamina-value converter\<close>

lemma digit_char_value: "d < 10 \<Longrightarrow> digit_value (digit_char d) = d"
proof -
  assume "d < 10"
  then have "d \<in> {0, 1, 2, 3, 4, 5, 6, 7, 8, 9}"
    by auto
  then show ?thesis
    by (auto simp: digit_value_def digit_char_def)
qed

lemma digit_char_plain: "d < 10 \<Longrightarrow> digit_char d \<noteq> CHR ''.'' \<and> digit_char d \<noteq> CHR ''-''"
proof -
  assume "d < 10"
  then have "d \<in> {0, 1, 2, 3, 4, 5, 6, 7, 8, 9}"
    by auto
  then show ?thesis
    by (auto simp: digit_char_def)
qed

lemma show_nat_plain: "plain (show_nat n)"
proof (induction n rule: show_nat.induct)
  case (1 n)
  show ?case
  proof (cases "n < 10")
    case True
    then show ?thesis
      by (subst show_nat.simps) (simp add: plain_def digit_char_plain)
  next
    case False
    with 1 show ?thesis
      by (subst show_nat.simps) (simp add: plain_def digit_char_plain)
  qed
qed

lemma show_nat_nonempty: "show_nat n \<noteq> []"
  by (subst show_nat.simps) simp

lemma digits_value_snoc: "digits_value (s @ [c]) = 10 * digits_value s + digit_value c"
  by (simp add: digits_value_def)

lemma digits_value_show_nat: "digits_value (show_nat n) = n"
proof (induction n rule: show_nat.induct)
  case (1 n)
  show ?case
  proof (cases "n < 10")
    case True
    then show ?thesis
      by (subst show_nat.simps) (simp add: digits_value_def digit_char_value)
  next
    case False
    with 1 show ?thesis
      by (subst show_nat.simps) (simp add: digits_value_snoc digit_char_value)
  qed
qed

lemma foldl_digits:
  "foldl (\<lambda>a c. 10 * a + digit_value c) a s = a * 10 ^ length s + digits_value s"
proof (induction s arbitrary: a rule: rev_induct)
  case Nil
  then show ?case by (simp add: digits_value_def)
next
  case (snoc c s)
  then show ?case
    by (simp add: digits_value_snoc algebra_simps)
qed

lemma digits_value_append:
  "digits_value (a @ b) = digits_value a * 10 ^ length b + digits_value b"
proof -
  have "digits_value (a @ b) = foldl (\<lambda>a c. 10 * a + digit_value c) (digits_value a) b"
    by (simp add: digits_value_def)
  then show ?thesis
    by (simp only: foldl_digits)
qed

lemma digits_value_zeros: "digits_value (replicate k (CHR ''0'') @ s) = digits_value s"
proof -
  have "digits_value (replicate k (CHR ''0'')) = 0"
    by (induction k) (simp_all add: digits_value_def digit_value_def)
  then show ?thesis
    by (simp add: digits_value_append)
qed

lemma decimalValue_split:
  assumes "plain a" and "plain b" and "a \<noteq> []"
  shows "decimalValue (a @ CHR ''.'' # b) =
           of_nat (digits_value (a @ b)) / 10 ^ length b"
proof -
  from assms have h: "hd (a @ CHR ''.'' # b) \<noteq> CHR ''-''"
    by (cases a) (auto simp: plain_def)
  from assms(1) have t: "takeWhile (\<lambda>c. c \<noteq> CHR ''.'') (a @ CHR ''.'' # b) = a"
    by (simp add: plain_def takeWhile_append2)
  from assms(1) have d: "dropWhile (\<lambda>c. c \<noteq> CHR ''.'') (a @ CHR ''.'' # b) = CHR ''.'' # b"
    by (simp add: plain_def dropWhile_append2)
  have "decimalValue (a @ CHR ''.'' # b) =
      of_nat (digits_value a) + of_nat (digits_value b) / 10 ^ length b"
    by (simp add: decimalValue_def Let_def h t d)
  then show ?thesis
    by (simp add: digits_value_append add_divide_distrib)
qed

lemma decimalValue_plain:
  assumes "plain a" and "a \<noteq> []"
  shows "decimalValue a = of_nat (digits_value a)"
proof -
  from assms have h: "hd a \<noteq> CHR ''-''"
    by (cases a) (auto simp: plain_def)
  from assms(1) have t: "takeWhile (\<lambda>c. c \<noteq> CHR ''.'') a = a"
    by (simp add: plain_def)
  from assms(1) have d: "dropWhile (\<lambda>c. c \<noteq> CHR ''.'') a = []"
    by (simp add: plain_def)
  show ?thesis
    by (simp add: decimalValue_def Let_def h t d digits_value_def)
qed

lemma toFixed_value:
  assumes "0 \<le> x"
  shows "decimalValue (toFixed x f) = of_int \<lfloor>x * 10 ^ f + 1 / 2\<rfloor> / 10 ^ f"
proof -
  define n where "n = nat \<lfloor>\<bar>x\<bar> * 10 ^ f + 1 / 2\<rfloor>"
  define m where "m = show_nat n"
  define z where "z = (if length m \<le> f then replicate (f + 1 - length m) (CHR ''0'') @ m else m)"
  have nn: "of_nat n = (of_int \<lfloor>x * 10 ^ f + 1 / 2\<rfloor> :: rat)"
  proof -
    have "0 \<le> x * 10 ^ f + 1 / 2"
      using assms by simp
    then have "0 \<le> \<lfloor>x * 10 ^ f + 1 / 2\<rfloor>"
      by simp
    then show ?thesis
      using assms by (simp add: n_def)
  qed
  have zp: "plain z"
    using show_nat_plain [of n] by (auto simp: z_def m_def plain_def)
  have zl: "f < length z"
    by (auto simp: z_def)
  have zv: "digits_value z = n"
    by (simp add: z_def m_def digits_value_zeros digits_value_show_nat)
  show ?thesis
  proof (cases "f = 0")
    case True
    then have "toFixed x f = m"
      using assms by (simp add: toFixed_def Let_def m_def n_def)
    moreover have "decimalValue m = of_nat n"
      using decimalValue_plain [of m] show_nat_plain [of n] show_nat_nonempty [of n]
      by (simp add: m_def digits_value_show_nat)
    ultimately show ?thesis
      using True nn by simp
  next
    case False
    let ?a = "take (length z - f) z" and ?b = "drop (length z - f) z"
    have tf: "toFixed x f = ?a @ CHR ''.'' # ?b"
      using assms False by (simp add: toFixed_def Let_def m_def n_def z_def)
    have pa: "plain ?a" and pb: "plain ?b"
      using zp by (auto simp: plain_def dest: in_set_takeD in_set_dropD)
    have ne: "?a \<noteq> []"
      using zl by auto
    have lb: "length ?b = f"
      using zl by simp
    have "decimalValue (?a @ CHR ''.'' # ?b) = of_nat (digits_value (?a @ ?b)) / 10 ^ length ?b"
      by (rule decimalValue_split [OF pa pb ne])
    then show ?thesis
      using tf lb zv nn by simp
  qed
qed

text \<open>
  C9. For a work-life-balance level of 1 or less the converter returns the sentinel
  99999. For a level above 1 it returns \<open>1000 / (13 * (level - 1))\<close> rounded to two
  decimal places, printed by \<open>toFixed(2)\<close>: the string denotes the nearest multiple
  of 1/100, a half going up; level 6 gives 15.38. A denominator of 0 or less gives the
  sentinel as well.
\<close>

theorem stamina_value:
  "(wlbLevel \<le> 1 \<longrightarrow> calculateStaminaCost wlbLevel = Num 99999) \<and>
   (1 < wlbLevel \<longrightarrow>
      calculateStaminaCost wlbLevel = Str (toFixed (1000 / (13 * (wlbLevel - 1))) 2) \<and>
      decimalValue (toFixed (1000 / (13 * (wlbLevel - 1))) 2) =
        of_int \<lfloor>1000 / (13 * (wlbLevel - 1)) * 100 + 1 / 2\<rfloor> / 100) \<and>
   (13 * (wlbLevel - 1) \<le> 0 \<longrightarrow> calculateStaminaCost wlbLevel = Num 99999) \<and>
   calculateStaminaCost 6 = Str ''15.38''"
proof -
  have low: "wlbLevel \<le> 1 \<longrightarrow> calculateStaminaCost wlbLevel = Num 99999"
    by (simp add: calculateStaminaCost_def)
  have den: "13 * (wlbLevel - 1) \<le> 0 \<longrightarrow> calculateStaminaCost wlbLevel = Num 99999"
    by (simp add: calculateStaminaCost_def)
  have high: "1 < wlbLevel \<longrightarrow>
      calculateStaminaCost wlbLevel = Str (toFixed (1000 / (13 * (wlbLevel - 1))) 2)"
    by (simp add: calculateStaminaCost_def)
  have val: "1 < wlbLevel \<longrightarrow>
      decimalValue (toFixed (1000 / (13 * (wlbLevel - 1))) 2) =
        of_int \<lfloor>1000 / (13 * (wlbLevel - 1)) * 100 + 1 / 2\<rfloor> / 100"
  proof
    assume "1 < wlbLevel"
    then have "0 \<le> 1000 / (13 * (wlbLevel - 1))"
      by simp
    from toFixed_value [OF this, of 2]
    show "decimalValue (toFixed (1000 / (13 * (wlbLevel - 1))) 2) =
        of_int \<lfloor>1000 / (13 * (wlbLevel - 1)) * 100 + 1 / 2\<rfloor> / 100"
      by simp
  qed
  have six: "calculateStaminaCost 6 = Str ''15.38''"
    by code_simp
  from low den high val six show ?thesis
    by blast
qed

theorem stamina_value_witness:
  "calculateStaminaCost 1 = Num 99999 \<and> calculateStaminaCost 6 = Str ''15.38'' \<and>
   decimalValue ''15.38'' = 1538 / 100"
proof -
  have f: "\<lfloor>1000 / (13 * (6 - 1)) * 100 + 1 / 2 :: rat\<rfloor> = 1538"
    by (rule floor_unique) simp_all
  have g: "(1 :: rat) < 6" and l: "(1 :: rat) \<le> 1"
    by simp_all
  from stamina_value [of 6] g
  have a: "calculateStaminaCost 6 = Str (toFixed (1000 / (13 * (6 - 1))) 2)"
    and b: "decimalValue (toFixed (1000 / (13 * (6 - 1))) 2) =
        of_int \<lfloor>1000 / (13 * (6 - 1)) * 100 + 1 / 2 :: rat\<rfloor> / 100"
    and c: "calculateStaminaCost 6 = Str ''15.38''"
    by blast+
  from stamina_value [of 1] l have d: "calculateStaminaCost 1 = Num 99999"
    by blast
  from a [symmetric] c have "Str (toFixed (1000 / (13 * (6 - 1))) 2) = Str ''15.38''"
    by (rule trans)
  then have t: "toFixed (1000 / (13 * (6 - 1))) 2 = ''15.38''"
    by (simp only: js_value.inject)
  from b [unfolded t f] have "decimalValue ''15.38'' = 1538 / 100"
    by simp
  with c d show ?thesis
    by blast
qed

section \<open>Cycles in the cost resolvers\<close>











end
